theory Spec2Isabelle
  imports Main
begin

section \<open>JavaScript values and objects\<close>

text \<open>
  The library is TypeScript, compiled to JavaScript: a \<open>Result\<close> is a plain object and
  \<open>Option<T> = T | null\<close> is an untagged union, so the payload \<open>T\<close> and \<open>null\<close> live in
  one universe of runtime values. Numbers are only carried around by the library, never
  computed with; \<open>Num\<close> holds the integer-valued ones.
\<close>

datatype jsval =
    Undefined
  | Null
  | Bool bool
  | Num int
  | Str string
  | Obj "(string \<times> jsval) list"

text \<open>
  An object is the list of its own properties, in the order of the object literal that
  built it. Where a name occurs twice, the first binding is the property.
\<close>

type_synonym obj = "(string \<times> jsval) list"

text \<open>Property read \<open>o.k\<close>: the value of the own property, \<open>undefined\<close> when there is none.\<close>

definition property :: "obj \<Rightarrow> string \<Rightarrow> jsval" where
  "property r k = (case map_of r k of None \<Rightarrow> Undefined | Some v \<Rightarrow> v)"

definition has_field :: "obj \<Rightarrow> string \<Rightarrow> bool" where
  "has_field r k = (k \<in> set (map fst r))"

text \<open>Truthiness, as a condition \<open>c ? a : b\<close>, \<open>if (c)\<close> or \<open>!c\<close> reads its operand.\<close>

fun truthy :: "jsval \<Rightarrow> bool" where
  "truthy Undefined = False"
| "truthy Null = False"
| "truthy (Bool b) = b"
| "truthy (Num n) = (n \<noteq> 0)"
| "truthy (Str s) = (s \<noteq> [])"
| "truthy (Obj fs) = True"

text \<open>
  What a \<open>throw\<close> or a rejected promise carries: an \<open>Error\<close> instance with its message, a
  \<open>TypeError\<close> of the runtime, or any other value.
\<close>

datatype thrown =
    Error (message: string)
  | TypeError
  | Raised jsval

text \<open>
  \<open>new Error(x)\<close> stores \<open>ToString(x)\<close> as the message unless \<open>x\<close> is \<open>undefined\<close>. On a
  string \<open>ToString\<close> is the identity. On an object of this universe (data properties only)
  it is \<open>Object.prototype.toString\<close>, unless an own property \<open>toString\<close> shadows it with a
  value that cannot be called, and then the conversion throws.
\<close>

definition digit :: "nat \<Rightarrow> char" where
  "digit n = ''0123456789'' ! (n mod 10)"

function nat_digits :: "nat \<Rightarrow> string" where
  "nat_digits n = (if n < 10 then [digit n] else nat_digits (n div 10) @ [digit n])"
  by pat_completeness auto
termination
  by (relation "measure id") auto

fun ToString :: "jsval \<Rightarrow> thrown + string" where
  "ToString Undefined = Inr ''undefined''"
| "ToString Null = Inr ''null''"
| "ToString (Bool b) = Inr (if b then ''true'' else ''false'')"
| "ToString (Num n) = Inr (if n < 0 then CHR ''-'' # nat_digits (nat (- n)) else nat_digits (nat n))"
| "ToString (Str s) = Inr s"
| "ToString (Obj fs) = (if has_field fs ''toString'' then Inl TypeError else Inr ''[object Object]'')"

definition new_Error :: "jsval \<Rightarrow> thrown + thrown" where
  "new_Error x =
     (if x = Undefined then Inr (Error [])
      else case ToString x of Inl e \<Rightarrow> Inl e | Inr s \<Rightarrow> Inr (Error s))"

section \<open>The Result type\<close>

text \<open>
  \<^verbatim>\<open>type Ok<T> = { ok: true; value: T }\<close>, \<^verbatim>\<open>type Err = { ok: false; error: string }\<close>,
  \<^verbatim>\<open>type Result<T> = Ok<T> | Err\<close>. Object types are open: an object with further
  properties still has the type.
\<close>

fun is_Str :: "jsval \<Rightarrow> bool" where
  "is_Str (Str s) = True"
| "is_Str v = False"

definition is_Ok :: "obj \<Rightarrow> bool" where
  "is_Ok r = (property r ''ok'' = Bool True \<and> has_field r ''value'')"

definition is_Err :: "obj \<Rightarrow> bool" where
  "is_Err r = (property r ''ok'' = Bool False \<and> is_Str (property r ''error''))"

definition is_Result :: "obj \<Rightarrow> bool" where
  "is_Result r = (is_Ok r \<or> is_Err r)"

section \<open>Producers\<close>

definition Ok :: "jsval \<Rightarrow> obj" where
  "Ok value = [(''ok'', Bool True), (''value'', value)]"

definition Err :: "string \<Rightarrow> obj" where
  "Err error = [(''ok'', Bool False), (''error'', Str error)]"

text \<open>
  A JavaScript call may pass more arguments than the function has parameters: the
  parameters are bound in order and the surplus is discarded. \<open>call1 f x surplus\<close> is
  such a call of a one-parameter function, so \<open>Err(m, c)\<close> is \<open>call1 Err m [c]\<close>.
\<close>

definition call1 :: "('a \<Rightarrow> 'b) \<Rightarrow> 'a \<Rightarrow> jsval list \<Rightarrow> 'b" where
  "call1 f x surplus = f x"

section \<open>Predicates and optional extraction\<close>

definition isOk :: "obj \<Rightarrow> jsval" where
  "isOk result = property result ''ok''"

definition optionOk :: "obj \<Rightarrow> jsval" where
  "optionOk result = (if truthy (isOk result) then property result ''value'' else Null)"

definition isErr :: "obj \<Rightarrow> jsval" where
  "isErr result = Bool (\<not> truthy (property result ''ok''))"

definition optionErr :: "obj \<Rightarrow> jsval" where
  "optionErr result = (if truthy (isErr result) then property result ''error'' else Null)"

section \<open>Unwrapping\<close>

text \<open>A \<open>throw\<close> is the left injection; evaluating \<open>new Error(...)\<close> may itself throw.\<close>

definition unwrap :: "obj \<Rightarrow> thrown + jsval" where
  "unwrap result =
     (if truthy (isOk result) then Inr (property result ''value'')
      else case new_Error (property result ''error'') of Inl e \<Rightarrow> Inl e | Inr e \<Rightarrow> Inl e)"

definition unwrapOrDefault :: "obj \<Rightarrow> jsval \<Rightarrow> jsval" where
  "unwrapOrDefault result defaultValue =
     (if truthy (isOk result) then property result ''value'' else defaultValue)"

section \<open>Promises\<close>

text \<open>
  A promise is modelled by how it ends: fulfilled with a value, rejected with a reason, or
  never settled. \<open>await\<close> inside an async function continues with the value, rejects the
  function's own promise with the reason, or leaves it pending for ever.
\<close>

datatype 'a promise = Resolved 'a | Rejected thrown | Pending

fun await :: "'a promise \<Rightarrow> ('a \<Rightarrow> 'b promise) \<Rightarrow> 'b promise" where
  "await (Resolved x) k = k x"
| "await (Rejected e) k = Rejected e"
| "await Pending k = Pending"

text \<open>The end of an async function's body: a \<open>return\<close> fulfils its promise, a \<open>throw\<close> rejects it.\<close>

fun async_return :: "thrown + 'a \<Rightarrow> 'a promise" where
  "async_return (Inr v) = Resolved v"
| "async_return (Inl e) = Rejected e"

text \<open>
  The argument \<open>fn\<close> is either a promise or a function of no arguments, told apart by
  \<open>typeof fn === "function"\<close>. A function may act on the world (a state \<open>'s\<close>) each time it
  is called, and either returns a promise or throws.
\<close>

datatype 's source =
    SrcFunction "'s \<Rightarrow> (thrown + obj promise) \<times> 's"
  | SrcPromise "obj promise"

text \<open>\<^verbatim>\<open>typeof fn === "function" ? fn() : fn\<close>\<close>

fun call_or_self :: "'s source \<Rightarrow> 's \<Rightarrow> (thrown + obj promise) \<times> 's" where
  "call_or_self (SrcFunction f) s = f s"
| "call_or_self (SrcPromise p) s = (Inr p, s)"

definition unwrapPromise :: "'s source \<Rightarrow> 's \<Rightarrow> jsval promise \<times> 's" where
  "unwrapPromise fn s =
     (case call_or_self fn s of
        (Inl e, s') \<Rightarrow> (Rejected e, s')
      | (Inr p, s') \<Rightarrow> (await p (\<lambda>result. async_return (unwrap result)), s'))"

definition unwrapPromiseOrDefault :: "'s source \<Rightarrow> jsval \<Rightarrow> 's \<Rightarrow> jsval promise \<times> 's" where
  "unwrapPromiseOrDefault fn defaultValue s =
     (case call_or_self fn s of
        (Inl e, s') \<Rightarrow> (Rejected e, s')
      | (Inr p, s') \<Rightarrow> (await p (\<lambda>result. Resolved (unwrapOrDefault result defaultValue)), s'))"

text \<open>
  A sample function of no arguments, as \<^verbatim>\<open>async () => Ok(42)\<close> in the tests, that also
  counts how often it has been called: the state is the number of calls so far.
\<close>

definition counting :: "obj promise \<Rightarrow> nat \<Rightarrow> (thrown + obj promise) \<times> nat" where
  "counting p calls = (Inr p, Suc calls)"

section \<open>Basic facts\<close>

lemma property_simps:
  "property [] k = Undefined"
  "property ((k', v) # r) k = (if k' = k then v else property r k)"
  by (simp_all add: property_def)

lemma has_field_simps:
  "has_field [] k = False"
  "has_field ((k', v) # r) k = (k' = k \<or> has_field r k)"
  by (auto simp add: has_field_def)

lemma property_Ok: "property (Ok v) ''ok'' = Bool True" "property (Ok v) ''value'' = v"
  by (simp_all add: Ok_def property_simps)

lemma property_Err: "property (Err m) ''ok'' = Bool False" "property (Err m) ''error'' = Str m"
  by (simp_all add: Err_def property_simps)

lemma is_Ok_Ok: "is_Ok (Ok v)"
  by (simp add: is_Ok_def Ok_def property_simps has_field_simps)

lemma is_Err_Err: "is_Err (Err m)"
  by (simp add: is_Err_def Err_def property_simps)

lemma is_Err_error: "is_Err r \<Longrightarrow> \<exists>m. property r ''error'' = Str m"
  by (cases "property r ''error''") (simp_all add: is_Err_def)

lemma is_Ok_not_is_Err: "is_Ok r \<Longrightarrow> \<not> is_Err r"
  by (simp add: is_Ok_def is_Err_def)

lemma unwrap_ok_true: "property r ''ok'' = Bool True \<Longrightarrow> unwrap r = Inr (property r ''value'')"
  by (simp add: unwrap_def isOk_def)

lemma unwrap_ok_false:
  "property r ''ok'' = Bool False \<Longrightarrow> property r ''error'' = Str m \<Longrightarrow> unwrap r = Inl (Error m)"
  by (simp add: unwrap_def isOk_def new_Error_def)

lemma unwrapOrDefault_ok_true:
  "property r ''ok'' = Bool True \<Longrightarrow> unwrapOrDefault r d = property r ''value''"
  by (simp add: unwrapOrDefault_def isOk_def)

lemma unwrapOrDefault_ok_false: "property r ''ok'' = Bool False \<Longrightarrow> unwrapOrDefault r d = d"
  by (simp add: unwrapOrDefault_def isOk_def)

lemma unwrapPromise_promise:
  "unwrapPromise (SrcPromise p) s = (await p (\<lambda>result. async_return (unwrap result)), s)"
  by (simp add: unwrapPromise_def)

lemma unwrapPromise_function:
  "f s = (Inr p, s') \<Longrightarrow>
   unwrapPromise (SrcFunction f) s = (await p (\<lambda>result. async_return (unwrap result)), s')"
  by (simp add: unwrapPromise_def)

lemma unwrapPromise_state: "snd (unwrapPromise (SrcFunction f) s) = snd (f s)"
  by (cases "f s") (simp add: unwrapPromise_def split: sum.splits)

lemma unwrapPromiseOrDefault_promise:
  "unwrapPromiseOrDefault (SrcPromise p) d s
     = (await p (\<lambda>result. Resolved (unwrapOrDefault result d)), s)"
  by (simp add: unwrapPromiseOrDefault_def)

lemma unwrapPromiseOrDefault_function:
  "f s = (Inr p, s') \<Longrightarrow>
   unwrapPromiseOrDefault (SrcFunction f) d s
     = (await p (\<lambda>result. Resolved (unwrapOrDefault result d)), s')"
  by (simp add: unwrapPromiseOrDefault_def)

lemma unwrapPromiseOrDefault_state:
  "snd (unwrapPromiseOrDefault (SrcFunction f) d s) = snd (f s)"
  by (cases "f s") (simp add: unwrapPromiseOrDefault_def split: sum.splits)

section \<open>The producers\<close>

text \<open>
  C1: \<open>Err(m, c)\<close> is claimed to build a failure whose \<open>error\<close> is \<open>m\<close> and whose \<open>code\<close> is
  \<open>c\<close>. \<open>Err\<close> has a single parameter and its object literal has no \<open>code\<close> property: on
  the call of the test suite, \<open>Err("error message", "NOT_FOUND")\<close>, the message is stored,
  the second argument is discarded, and reading \<open>.code\<close> gives \<open>undefined\<close>, not
  \<open>"NOT_FOUND"\<close>.
\<close>

theorem Err_discards_code_argument:
  "call1 Err ''error message'' [Str ''NOT_FOUND'']
     = [(''ok'', Bool False), (''error'', Str ''error message'')]
   \<and> property (call1 Err ''error message'' [Str ''NOT_FOUND'']) ''error'' = Str ''error message''
   \<and> property (call1 Err ''error message'' [Str ''NOT_FOUND'']) ''code'' = Undefined
   \<and> property (call1 Err ''error message'' [Str ''NOT_FOUND'']) ''code'' \<noteq> Str ''NOT_FOUND''
   \<and> property (Err ''error message'') ''code'' = Undefined"
  by (simp add: call1_def Err_def property_simps)

text \<open>
  C9: every value that \<open>Err\<close> produces has exactly the two properties \<open>ok: false\<close> and
  \<open>error: m\<close>, in this order; whatever further arguments the caller passes, there is no
  \<open>code\<close> property, and the call gives the same object as \<open>Err(m)\<close>.
\<close>

theorem Err_has_only_ok_and_error:
  "call1 Err m surplus = [(''ok'', Bool False), (''error'', Str m)]
   \<and> map fst (call1 Err m surplus) = [''ok'', ''error'']
   \<and> property (call1 Err m surplus) ''ok'' = Bool False
   \<and> property (call1 Err m surplus) ''error'' = Str m
   \<and> \<not> has_field (call1 Err m surplus) ''code''
   \<and> property (call1 Err m surplus) ''code'' = Undefined
   \<and> call1 Err m surplus = Err m"
  by (simp add: call1_def Err_def property_simps has_field_simps)

section \<open>The predicates\<close>

text \<open>
  C5: on every \<open>Result\<close>, \<open>isOk\<close> is \<open>true\<close> exactly when the tag \<open>ok\<close> is \<open>true\<close>, \<open>isErr\<close> is
  \<open>true\<close> exactly when the tag is \<open>false\<close>, both return booleans, and they are never both
  \<open>true\<close> nor both \<open>false\<close>.
\<close>

theorem isOk_isErr_complementary:
  "is_Result r \<Longrightarrow>
     isOk r = Bool (property r ''ok'' = Bool True)
   \<and> isErr r = Bool (property r ''ok'' = Bool False)
   \<and> (isOk r = Bool True) = (isErr r = Bool False)
   \<and> (isOk r = Bool False) = (isErr r = Bool True)
   \<and> \<not> (isOk r = Bool True \<and> isErr r = Bool True)
   \<and> \<not> (isOk r = Bool False \<and> isErr r = Bool False)"
  by (auto simp add: is_Result_def is_Ok_def is_Err_def isOk_def isErr_def)

theorem isOk_isErr_complementary_witness:
  "is_Result (Err ''error'')
   \<and> isOk (Err ''error'') = Bool False \<and> isErr (Err ''error'') = Bool True"
  using isOk_isErr_complementary [of "Err ''error''"]
  by (simp add: is_Result_def is_Err_def Err_def property_simps)

section \<open>Optional extraction\<close>

text \<open>
  C8: \<open>optionOk\<close> returns the value of a success and \<open>null\<close> for a failure; \<open>optionErr\<close>
  returns the message of a failure, and only the message, also when the object carries a
  \<open>code\<close>, and \<open>null\<close> for a success. Both are plain values: the bodies read properties of
  an object and branch, and have no way to throw.
\<close>

theorem optionOk_optionErr_extract:
  "optionOk (Ok v) = v \<and> optionErr (Ok v) = Null
   \<and> optionOk (Err m) = Null \<and> optionErr (Err m) = Str m
   \<and> (is_Ok rok \<longrightarrow> optionOk rok = property rok ''value'' \<and> optionErr rok = Null)
   \<and> (is_Err rerr \<and> property rerr ''error'' = Str e \<longrightarrow>
        optionOk rerr = Null \<and> optionErr rerr = Str e)"
  by (simp add: optionOk_def optionErr_def isOk_def isErr_def property_Ok property_Err
        is_Ok_def is_Err_def)

theorem optionOk_optionErr_extract_witness:
  "is_Ok [(''ok'', Bool True), (''value'', Num 42)]
   \<and> is_Err [(''ok'', Bool False), (''error'', Str ''Invalid''), (''code'', Str ''E_INVALID'')]
   \<and> optionOk [(''ok'', Bool True), (''value'', Num 42)] = Num 42
   \<and> optionErr [(''ok'', Bool True), (''value'', Num 42)] = Null
   \<and> optionOk [(''ok'', Bool False), (''error'', Str ''Invalid''), (''code'', Str ''E_INVALID'')]
       = Null
   \<and> optionErr [(''ok'', Bool False), (''error'', Str ''Invalid''), (''code'', Str ''E_INVALID'')]
       = Str ''Invalid''"
  using optionOk_optionErr_extract [of "Num 42" "''Invalid''"
      "[(''ok'', Bool True), (''value'', Num 42)]"
      "[(''ok'', Bool False), (''error'', Str ''Invalid''), (''code'', Str ''E_INVALID'')]"
      "''Invalid''"]
  by (simp add: is_Ok_def is_Err_def property_simps has_field_simps)

text \<open>
  C10: \<open>optionOk(Ok(null))\<close> is \<open>null\<close>, the very value \<open>optionOk\<close> returns for every
  failure: the two results differ, what \<open>optionOk\<close> returns for them does not.
\<close>

theorem optionOk_null_success_like_failure:
  "optionOk (Ok Null) = Null
   \<and> optionOk (Err m) = Null
   \<and> optionOk (Ok Null) = optionOk (Err m)
   \<and> Ok Null \<noteq> Err m
   \<and> (is_Err r \<longrightarrow> optionOk (Ok Null) = optionOk r)"
  by (simp add: optionOk_def isOk_def is_Err_def Ok_def Err_def property_simps)

theorem optionOk_null_success_like_failure_witness:
  "is_Err [(''ok'', Bool False), (''error'', Str ''Invalid'')]
   \<and> optionOk (Ok Null) = optionOk [(''ok'', Bool False), (''error'', Str ''Invalid'')]"
  using optionOk_null_success_like_failure
    [of "''error''" "[(''ok'', Bool False), (''error'', Str ''Invalid'')]"]
  by (simp add: is_Err_def property_simps optionOk_def isOk_def Ok_def)

section \<open>Synchronous unwrapping\<close>

text \<open>
  C2: \<open>unwrap(Ok(v))\<close> returns \<open>v\<close> and does not throw; \<open>unwrap\<close> of a failure throws an
  \<open>Error\<close> whose message is the failure's \<open>error\<close>. The thrown \<open>Error\<close> is built from the
  message alone: a \<open>code\<close> on the failure changes nothing of what is thrown.
\<close>

theorem unwrap_value_or_raise_message:
  "unwrap (Ok v) = Inr v
   \<and> unwrap (Err m) = Inl (Error m)
   \<and> unwrap (Err m @ [(''code'', c)]) = unwrap (Err m)
   \<and> (is_Err r \<and> property r ''error'' = Str e \<longrightarrow> unwrap r = Inl (Error e))"
  by (simp add: unwrap_ok_false is_Err_def)
     (simp add: unwrap_def isOk_def Ok_def Err_def new_Error_def property_simps)

theorem unwrap_value_or_raise_message_witness:
  "is_Err [(''ok'', Bool False), (''error'', Str ''Cannot divide by zero''),
           (''code'', Str ''DIVISION_BY_ZERO'')]
   \<and> unwrap [(''ok'', Bool False), (''error'', Str ''Cannot divide by zero''),
             (''code'', Str ''DIVISION_BY_ZERO'')]
       = Inl (Error ''Cannot divide by zero'')"
  using unwrap_value_or_raise_message [of "Num 5" "''Cannot divide by zero''"
      "Str ''DIVISION_BY_ZERO''"
      "[(''ok'', Bool False), (''error'', Str ''Cannot divide by zero''),
        (''code'', Str ''DIVISION_BY_ZERO'')]"
      "''Cannot divide by zero''"]
  by (simp add: is_Err_def property_simps)

text \<open>
  C6: \<open>unwrapOrDefault(Ok(v), d)\<close> is \<open>v\<close> and \<open>unwrapOrDefault(Err(m), d)\<close> is \<open>d\<close>, and so
  for every success and every failure, whatever the default. The result is a plain value:
  the body reads properties of an object and branches, and has no way to throw.
\<close>

theorem unwrapOrDefault_value_or_default:
  "unwrapOrDefault (Ok v) d = v
   \<and> unwrapOrDefault (Err m) d = d
   \<and> (is_Ok rok \<longrightarrow> unwrapOrDefault rok d = property rok ''value'')
   \<and> (is_Err rerr \<longrightarrow> unwrapOrDefault rerr d = d)"
  by (simp add: unwrapOrDefault_ok_true unwrapOrDefault_ok_false property_Ok property_Err
        is_Ok_def is_Err_def)

theorem unwrapOrDefault_value_or_default_witness:
  "is_Ok [(''ok'', Bool True), (''value'', Num 42)]
   \<and> is_Err [(''ok'', Bool False), (''error'', Str ''error'')]
   \<and> unwrapOrDefault [(''ok'', Bool True), (''value'', Num 42)] (Num 0) = Num 42
   \<and> unwrapOrDefault [(''ok'', Bool False), (''error'', Str ''error'')] (Num 0) = Num 0"
  using unwrapOrDefault_value_or_default [of "Num 42" "Num 0" "''error''"
      "[(''ok'', Bool True), (''value'', Num 42)]"
      "[(''ok'', Bool False), (''error'', Str ''error'')]"]
  by (simp add: is_Ok_def is_Err_def property_simps has_field_simps)

section \<open>Asynchronous unwrapping\<close>

text \<open>
  C3: given a promise fulfilled with a \<open>Result\<close>, \<open>unwrapPromise\<close> ends as \<open>unwrap\<close> of that
  result does: fulfilled with the value of a success, rejected with an \<open>Error\<close> carrying
  the message (and nothing of a \<open>code\<close>) of a failure. Given a function, it calls it in
  the state it was itself called in, the world afterwards is the world after that one
  call, and the outcome is the one of passing the returned promise directly.
\<close>

theorem unwrapPromise_awaits_then_unwraps:
  "unwrapPromise (SrcPromise (Resolved r)) s = (async_return (unwrap r), s)
   \<and> (is_Ok rok \<longrightarrow>
        unwrapPromise (SrcPromise (Resolved rok)) s = (Resolved (property rok ''value''), s))
   \<and> (is_Err rerr \<and> property rerr ''error'' = Str m \<longrightarrow>
        unwrapPromise (SrcPromise (Resolved rerr)) s = (Rejected (Error m), s))
   \<and> (f s = (Inr p, s') \<longrightarrow>
        unwrapPromise (SrcFunction f) s = (fst (unwrapPromise (SrcPromise p) s), s'))
   \<and> snd (unwrapPromise (SrcFunction f) s) = snd (f s)"
  by (simp add: unwrapPromise_promise unwrapPromise_function unwrapPromise_state
        unwrap_ok_true unwrap_ok_false is_Ok_def is_Err_def)

theorem unwrapPromise_awaits_then_unwraps_witness:
  "is_Ok (Ok (Num 42))
   \<and> is_Err [(''ok'', Bool False), (''error'', Str ''Failed''), (''code'', Str ''E_FAIL'')]
   \<and> counting (Resolved (Ok (Num 42))) 0 = (Inr (Resolved (Ok (Num 42))), 1)
   \<and> unwrapPromise (SrcPromise (Resolved (Ok (Num 42)))) (0::nat) = (Resolved (Num 42), 0)
   \<and> unwrapPromise (SrcPromise (Resolved
         [(''ok'', Bool False), (''error'', Str ''Failed''), (''code'', Str ''E_FAIL'')])) (0::nat)
       = (Rejected (Error ''Failed''), 0)
   \<and> unwrapPromise (SrcFunction (counting (Resolved (Ok (Num 42))))) 0 = (Resolved (Num 42), 1)"
  using unwrapPromise_awaits_then_unwraps [of "Ok (Num 42)" "0::nat" "Ok (Num 42)"
      "[(''ok'', Bool False), (''error'', Str ''Failed''), (''code'', Str ''E_FAIL'')]" "''Failed''"
      "counting (Resolved (Ok (Num 42)))" "Resolved (Ok (Num 42))" "1"]
  by (simp add: is_Ok_def is_Err_def Ok_def property_simps has_field_simps counting_def
        unwrap_def isOk_def)

text \<open>
  C4: when the supplied promise, or the promise the supplied function returns, is
  rejected, \<open>unwrapPromise\<close> and \<open>unwrapPromiseOrDefault\<close> are rejected with the very same
  reason: the default is not substituted and the reason is neither wrapped nor changed.
\<close>

theorem rejection_passes_through:
  "unwrapPromise (SrcPromise (Rejected e)) s = (Rejected e, s)
   \<and> unwrapPromiseOrDefault (SrcPromise (Rejected e)) d s = (Rejected e, s)
   \<and> (f s = (Inr (Rejected e), s') \<longrightarrow>
        unwrapPromise (SrcFunction f) s = (Rejected e, s')
        \<and> unwrapPromiseOrDefault (SrcFunction f) d s = (Rejected e, s'))"
  by (simp add: unwrapPromise_promise unwrapPromise_function
        unwrapPromiseOrDefault_promise unwrapPromiseOrDefault_function)

theorem rejection_passes_through_witness:
  "counting (Rejected (Raised (Str ''network down''))) 0
     = (Inr (Rejected (Raised (Str ''network down''))), 1)
   \<and> unwrapPromise (SrcFunction (counting (Rejected (Raised (Str ''network down''))))) 0
       = (Rejected (Raised (Str ''network down'')), 1)
   \<and> unwrapPromiseOrDefault (SrcFunction (counting (Rejected (Raised (Str ''network down'')))))
         (Num 0) 0
       = (Rejected (Raised (Str ''network down'')), 1)"
  using rejection_passes_through [of "Raised (Str ''network down'')" "0::nat" "Num 0"
      "counting (Rejected (Raised (Str ''network down'')))" "1"]
  by (simp add: counting_def)

text \<open>
  C7: \<open>unwrapPromiseOrDefault\<close> takes its source as \<open>unwrapPromise\<close> does, a promise or a
  function called once; when the awaited \<open>Result\<close> is a success it is fulfilled with the
  value, and when it is a failure it is fulfilled with the default instead of rejected.
\<close>

theorem unwrapPromiseOrDefault_value_or_default:
  "unwrapPromiseOrDefault (SrcPromise (Resolved r)) d s = (Resolved (unwrapOrDefault r d), s)
   \<and> (is_Ok rok \<longrightarrow>
        unwrapPromiseOrDefault (SrcPromise (Resolved rok)) d s
          = (Resolved (property rok ''value''), s))
   \<and> (is_Err rerr \<longrightarrow>
        unwrapPromiseOrDefault (SrcPromise (Resolved rerr)) d s = (Resolved d, s))
   \<and> (f s = (Inr p, s') \<longrightarrow>
        unwrapPromiseOrDefault (SrcFunction f) d s
          = (fst (unwrapPromiseOrDefault (SrcPromise p) d s), s'))
   \<and> snd (unwrapPromiseOrDefault (SrcFunction f) d s) = snd (f s)"
  by (simp add: unwrapPromiseOrDefault_promise unwrapPromiseOrDefault_function
        unwrapPromiseOrDefault_state
        unwrapOrDefault_ok_true unwrapOrDefault_ok_false is_Ok_def is_Err_def)

theorem unwrapPromiseOrDefault_value_or_default_witness:
  "is_Ok (Ok (Num 42)) \<and> is_Err (Err ''error'')
   \<and> counting (Resolved (Err ''error'')) 0 = (Inr (Resolved (Err ''error'')), 1)
   \<and> unwrapPromiseOrDefault (SrcPromise (Resolved (Ok (Num 42)))) (Num 0) (0::nat)
       = (Resolved (Num 42), 0)
   \<and> unwrapPromiseOrDefault (SrcPromise (Resolved (Err ''error''))) (Num 0) (0::nat)
       = (Resolved (Num 0), 0)
   \<and> unwrapPromiseOrDefault (SrcFunction (counting (Resolved (Err ''error'')))) (Num 0) 0
       = (Resolved (Num 0), 1)"
  using unwrapPromiseOrDefault_value_or_default [of "Ok (Num 42)" "Num 0" "0::nat" "Ok (Num 42)"
      "Err ''error''" "counting (Resolved (Err ''error''))" "Resolved (Err ''error'')" "1"]
  by (simp add: is_Ok_def is_Err_def Ok_def Err_def property_simps has_field_simps counting_def
        unwrapOrDefault_def isOk_def)

end
